theory Spec2Isabelle
  imports Main
begin

section \<open>TaskFlex: the request handlers of app.py over an explicit store\<close>

subsection \<open>JSON values and Python's view of them\<close>

text \<open>
  What \<open>request.get_json()\<close> returns and what \<open>jsonify\<close> receives. Numbers are the
  integers; an object is the list of its bindings, a key's value being its first binding.
\<close>

datatype json =
    JNull
  | JBool bool
  | JInt int
  | JStr string
  | JArr "json list"
  | JObj "(string \<times> json) list"

text \<open>An exception that no handler catches; the framework answers it with a 500.\<close>

datatype error = AttributeError | TypeError | KeyError | IntegrityError

type_synonym response = "json \<times> nat"

type_synonym result = "error + response"

text \<open>Python's truth value of a value: what \<open>not x\<close> and \<open>x or y\<close> test.\<close>

fun truthy :: "json \<Rightarrow> bool" where
  "truthy JNull = False"
| "truthy (JBool b) = b"
| "truthy (JInt n) = (n \<noteq> 0)"
| "truthy (JStr s) = (s \<noteq> [])"
| "truthy (JArr xs) = (xs \<noteq> [])"
| "truthy (JObj kvs) = (kvs \<noteq> [])"

text \<open>\<open>data.get(k)\<close> and \<open>data.get(k, d)\<close>: only a dict has the method.\<close>

fun dict_get :: "json \<Rightarrow> string \<Rightarrow> json \<Rightarrow> error + json" where
  "dict_get (JObj kvs) k d = Inr (case map_of kvs k of None \<Rightarrow> d | Some v \<Rightarrow> v)"
| "dict_get _ k d = Inl AttributeError"

fun is_substring :: "string \<Rightarrow> string \<Rightarrow> bool" where
  "is_substring k [] = (k = [])"
| "is_substring k (c # cs) = (take (length k) (c # cs) = k \<or> is_substring k cs)"

text \<open>
  \<open>k in data\<close>: key membership for a dict, element membership for a list, substring for a
  string, and a TypeError for a number, a boolean or None.
\<close>

fun py_in :: "string \<Rightarrow> json \<Rightarrow> error + bool" where
  "py_in k (JObj kvs) = Inr (k \<in> set (map fst kvs))"
| "py_in k (JArr xs) = Inr (JStr k \<in> set xs)"
| "py_in k (JStr s) = Inr (is_substring k s)"
| "py_in k _ = Inl TypeError"

text \<open>
  \<open>data[k]\<close> with a string key: a dict answers or raises KeyError, anything else raises
  TypeError.
\<close>

fun subscript :: "json \<Rightarrow> string \<Rightarrow> error + json" where
  "subscript (JObj kvs) k = (case map_of kvs k of None \<Rightarrow> Inl KeyError | Some v \<Rightarrow> Inr v)"
| "subscript _ k = Inl TypeError"

subsection \<open>The two tables\<close>

text \<open>
  A row holds the values the handler assigned: the handlers check no types, so a column
  holds a JSON value, \<open>JNull\<close> being Python's None and SQL's NULL. The primary keys are
  integers generated by the store.
\<close>

record User =
  u_id :: int
  username :: json
  email :: json
  password_hash :: json

record Task =
  t_id :: int
  title :: json
  description :: json
  due_date :: json
  priority :: json
  completed :: json
  user_id :: json

record store =
  users :: "User list"
  tasks :: "Task list"

definition empty_store :: store where
  "empty_store = \<lparr>users = [], tasks = []\<rparr>"

text \<open>The generated key of a new row: one more than the largest key in the table.\<close>

definition next_id :: "int list \<Rightarrow> int" where
  "next_id ids = fold max ids 0 + 1"

text \<open>\<open>User.query.get(ident)\<close> and \<open>Task.query.get(ident)\<close>: the row with that primary key.\<close>

definition user_get :: "store \<Rightarrow> json \<Rightarrow> User option" where
  "user_get s ident = find (\<lambda>u. JInt (u_id u) = ident) (users s)"


text \<open>\<open>User.query.filter_by(username=x).first()\<close> and the same on email.\<close>

definition first_by_username :: "store \<Rightarrow> json \<Rightarrow> User option" where
  "first_by_username s x = find (\<lambda>u. username u = x) (users s)"

definition first_by_email :: "store \<Rightarrow> json \<Rightarrow> User option" where
  "first_by_email s x = find (\<lambda>u. email u = x) (users s)"

text \<open>
  Adding a User and committing. The columns are declared \<open>nullable=False\<close>, and username
  and email \<open>unique=True\<close>: a row that breaks a declaration makes the commit raise
  IntegrityError, and nothing is stored.
\<close>

definition insert_user :: "store \<Rightarrow> User \<Rightarrow> error + store" where
  "insert_user s u =
     (if username u = JNull \<or> email u = JNull \<or> password_hash u = JNull then Inl IntegrityError
      else if list_ex (\<lambda>v. username v = username u \<or> email v = email u) (users s)
        then Inl IntegrityError
      else Inr (s\<lparr>users := users s @ [u\<lparr>u_id := next_id (map u_id (users s))\<rparr>]\<rparr>))"

text \<open>
  Adding a Task and committing. A column whose value is None at the insert takes its
  declared default (\<open>priority\<close>: "medium", \<open>completed\<close>: False); \<open>title\<close> and \<open>user_id\<close> are
  \<open>nullable=False\<close>. The stored row is returned with the store: the handler serialises
  the task after the commit.
\<close>

definition with_default :: "json \<Rightarrow> json \<Rightarrow> json" where
  "with_default d v = (if v = JNull then d else v)"

definition insert_task :: "store \<Rightarrow> Task \<Rightarrow> error + (Task \<times> store)" where
  "insert_task s t =
     (if title t = JNull \<or> user_id t = JNull then Inl IntegrityError
      else
        let t' = t\<lparr>t_id := next_id (map t_id (tasks s)),
                   priority := with_default (JStr ''medium'') (priority t),
                   completed := with_default (JBool False) (completed t)\<rparr>
        in Inr (t', s\<lparr>tasks := tasks s @ [t']\<rparr>))"



text \<open>\<open>Task.to_dict\<close>.\<close>

definition to_dict :: "Task \<Rightarrow> json" where
  "to_dict t = JObj
     [(''id'', JInt (t_id t)),
      (''title'', title t),
      (''description'', description t),
      (''dueDate'', due_date t),
      (''priority'', priority t),
      (''completed'', completed t),
      (''userId'', user_id t)]"

subsection \<open>The messages\<close>

text \<open>A character of a message is its code point; all of them are below 256.\<close>

definition message :: "string \<Rightarrow> json" where
  "message m = JObj [(''message'', JStr m)]"

definition msg_missing :: string where
  "msg_missing = ''Faltam dados obrigat'' @ [CHR 0xF3] @ ''rios''"

definition msg_conflict :: string where
  "msg_conflict = ''Usu'' @ [CHR 0xE1] @ ''rio ou e-mail j'' @ [CHR 0xE1] @ '' existe''"

definition msg_created :: string where
  "msg_created = ''Usu'' @ [CHR 0xE1] @ ''rio criado com sucesso''"



definition msg_no_user :: string where
  "msg_no_user = ''Usu'' @ [CHR 0xE1] @ ''rio n'' @ [CHR 0xE3] @ ''o encontrado''"

definition msg_incomplete :: string where
  "msg_incomplete = ''Dados incompletos''"



subsection \<open>The password functions\<close>

text \<open>
  \<open>generate_password_hash\<close> and \<open>check_password_hash\<close> come from a library: the handlers
  take them as parameters \<open>gph\<close> and \<open>cph\<close>. Either may raise on what it is given.
\<close>

type_synonym gen_hash = "json \<Rightarrow> error + string"


definition set_password :: "gen_hash \<Rightarrow> User \<Rightarrow> json \<Rightarrow> error + User" where
  "set_password gph u password =
     (case gph password of Inl e \<Rightarrow> Inl e | Inr h \<Rightarrow> Inr (u\<lparr>password_hash := JStr h\<rparr>))"


subsection \<open>The six handlers\<close>

text \<open>
  A handler takes the store and its request and returns the response, or the exception
  it died of, with the store after it. An exception leaves the store as it was:
  \<open>raising m s f\<close> goes on with the value of \<open>m\<close>, or stops with its exception and \<open>s\<close>.
\<close>

definition raising :: "error + 'a \<Rightarrow> store \<Rightarrow> ('a \<Rightarrow> result \<times> store) \<Rightarrow> result \<times> store" where
  "raising m s f = (case m of Inl e \<Rightarrow> (Inl e, s) | Inr x \<Rightarrow> f x)"

definition register :: "gen_hash \<Rightarrow> store \<Rightarrow> json \<Rightarrow> result \<times> store" where
  "register gph s data =
     raising (dict_get data ''username'' JNull) s (\<lambda>uname.
     raising (dict_get data ''email'' JNull) s (\<lambda>mail.
     raising (dict_get data ''password'' JNull) s (\<lambda>pw.
       if \<not> truthy uname \<or> \<not> truthy mail \<or> \<not> truthy pw
         then (Inr (message msg_missing, 400), s)
       else if first_by_username s uname \<noteq> None \<or> first_by_email s mail \<noteq> None
         then (Inr (message msg_conflict, 409), s)
       else
         raising (set_password gph
                    \<lparr>u_id = 0, username = uname, email = mail, password_hash = JNull\<rparr> pw) s
           (\<lambda>new_user.
         raising (insert_user s new_user) s (\<lambda>s'.
           (Inr (message msg_created, 201), s'))))))"



definition add_task :: "store \<Rightarrow> json \<Rightarrow> result \<times> store" where
  "add_task s data =
     (if \<not> truthy data then (Inr (message msg_incomplete, 400), s)
      else
        raising (py_in ''title'' data) s (\<lambda>has_title.
          if \<not> has_title then (Inr (message msg_incomplete, 400), s)
          else
        raising (py_in ''userId'' data) s (\<lambda>has_user.
          if \<not> has_user then (Inr (message msg_incomplete, 400), s)
          else
        raising (subscript data ''userId'') s (\<lambda>uid.
          (case user_get s uid of
             None \<Rightarrow> (Inr (message msg_no_user, 404), s)
           | Some user \<Rightarrow>
        raising (subscript data ''title'') s (\<lambda>ttl.
        raising (dict_get data ''description'' (JStr [])) s (\<lambda>descr.
        raising (dict_get data ''dueDate'' JNull) s (\<lambda>due.
        raising (dict_get data ''priority'' (JStr ''medium'')) s (\<lambda>prio.
        raising (subscript data ''userId'') s (\<lambda>owner.
        raising (insert_task s
                   \<lparr>t_id = 0, title = ttl, description = descr, due_date = due,
                    priority = prio, completed = JNull, user_id = owner\<rparr>) s
          (\<lambda>(new_task, s'). (Inr (to_dict new_task, 201), s'))))))))))))"



subsection \<open>The service\<close>




subsection \<open>The scenario of the specification\<close>

text \<open>
  Ana registers in the empty store and creates the task "Buy milk". The password functions
  of the scenario prefix the password and compare; they raise on anything but a string.
\<close>

definition ex_gph :: gen_hash where
  "ex_gph p = (case p of JStr w \<Rightarrow> Inr (''h$'' @ w) | _ \<Rightarrow> Inl AttributeError)"


definition ana_request :: json where
  "ana_request = JObj [(''username'', JStr ''ana''), (''email'', JStr ''ana@x.com''),
                       (''password'', JStr ''pw1'')]"

definition ana_store :: store where
  "ana_store = snd (register ex_gph empty_store ana_request)"

definition milk_store :: store where
  "milk_store =
     snd (add_task ana_store (JObj [(''title'', JStr ''Buy milk''), (''userId'', JInt 1)]))"

section \<open>Properties\<close>

subsection \<open>The stores of the scenario\<close>

lemma ana_store_eq:
  "ana_store = \<lparr>users = [\<lparr>u_id = 1, username = JStr ''ana'', email = JStr ''ana@x.com'',
                            password_hash = JStr ''h$pw1''\<rparr>], tasks = []\<rparr>"
  by (simp add: ana_store_def register_def raising_def ana_request_def empty_store_def
      first_by_username_def first_by_email_def set_password_def ex_gph_def insert_user_def
      next_id_def)

lemma milk_store_eq:
  "milk_store = \<lparr>users = [\<lparr>u_id = 1, username = JStr ''ana'', email = JStr ''ana@x.com'',
                             password_hash = JStr ''h$pw1''\<rparr>],
     tasks = [\<lparr>t_id = 1, title = JStr ''Buy milk'', description = JStr [], due_date = JNull,
               priority = JStr ''medium'', completed = JBool False, user_id = JInt 1\<rparr>]\<rparr>"
  by (simp add: milk_store_def ana_store_eq add_task_def raising_def user_get_def
      insert_task_def with_default_def next_id_def Let_def)

subsection \<open>Registration\<close>

text \<open>
  C9. A registration whose username, email or password is present but the empty string
  is answered with the missing-fields message and status 400 and stores nothing, exactly
  as when the field is absent: the check is \<open>not username or not email or not password\<close>.
\<close>

theorem register_empty_string_rejected:
  "k \<in> {''username'', ''email'', ''password''} \<Longrightarrow>
   map_of kvs k = Some (JStr []) \<or> map_of kvs k = None \<Longrightarrow>
   register gph s (JObj kvs) = (Inr (message msg_missing, 400), s)"
  by (auto simp: register_def raising_def)

theorem register_empty_string_rejected_witness:
  "register (\<lambda>p. Inr ''h'') empty_store
     (JObj [(''username'', JStr []), (''email'', JStr ''ana@x.com''), (''password'', JStr ''pw1'')])
   = (Inr (message msg_missing, 400), empty_store)"
  using register_empty_string_rejected
    [of "''username''"
        "[(''username'', JStr []), (''email'', JStr ''ana@x.com''), (''password'', JStr ''pw1'')]"
        "\<lambda>p. Inr ''h''" empty_store]
  by simp




subsection \<open>Login\<close>







subsection \<open>Deleting a task\<close>






subsection \<open>Listing the tasks of a user\<close>




subsection \<open>Usernames and emails stay unique\<close>











subsection \<open>Creating a task\<close>






text \<open>
  A priority that is null is None at the insert, so the stored and returned priority is
  the column default and not the submitted null.
\<close>

lemma add_task_null_priority:
  "add_task ana_store (JObj [(''title'', JStr ''Buy milk''), (''userId'', JInt 1),
                             (''priority'', JNull)])
     = (Inr (JObj [(''id'', JInt 1), (''title'', JStr ''Buy milk''), (''description'', JStr []),
                   (''dueDate'', JNull), (''priority'', JStr ''medium''),
                   (''completed'', JBool False), (''userId'', JInt 1)], 201), milk_store)"
  by (simp add: ana_store_eq milk_store_eq user_get_def add_task_def raising_def insert_task_def
      with_default_def next_id_def to_dict_def Let_def)







end
